theory Spec2Isabelle
  imports Main
begin

section \<open>The path pattern and its matcher\<close>

text \<open>
  The dispatcher of \<^verbatim>\<open>swagger.go\<close> splits the raw request URI with the pattern
  \<^verbatim>\<open>^(.*/)([^?].*)?[?|.]*$\<close>. Go's \<^verbatim>\<open>regexp\<close> package gives the leftmost match and,
  among the matches starting there, the one a backtracking matcher finds first: a greedy
  star tries the longest run first, a greedy option tries its body before skipping it.
  The fragment of the syntax the pattern uses is modelled: line anchors, a single
  character of a class, a greedy star over a class, a greedy option, concatenation and
  numbered capture groups. A class is a list of characters with a negation flag;
  \<^verbatim>\<open>.\<close> is the negated class of the line feed, and a negated class matches a line feed
  as Go's does.

  Strings are byte strings here. Go matches UTF-8 runes, but every character the pattern
  names is ASCII and no byte of a multi-byte rune is an ASCII byte, so the byte positions
  of the match and of its groups are the same.
\<close>

datatype regex =
    Bol
  | Eol
  | Cls bool string
  | Star bool string
  | Opt regex
  | Cat regex regex
  | Cap nat regex

definition in_cls :: "bool \<Rightarrow> string \<Rightarrow> char \<Rightarrow> bool" where
  "in_cls neg cs c = (if neg then c \<notin> set cs else c \<in> set cs)"

type_synonym thread = "nat \<times> (nat \<Rightarrow> (nat \<times> nat) option)"

text \<open>
  \<open>threads inp r (p, c)\<close> lists, in the matcher's order of preference, every way \<open>r\<close> can
  match \<open>inp\<close> from position \<open>p\<close>: the position reached and the groups recorded so far.
\<close>

fun threads :: "string \<Rightarrow> regex \<Rightarrow> thread \<Rightarrow> thread list" where
  "threads inp Bol (p, c) = (if p = 0 then [(p, c)] else [])"
| "threads inp Eol (p, c) = (if p = length inp then [(p, c)] else [])"
| "threads inp (Cls neg cs) (p, c) =
     (if p < length inp \<and> in_cls neg cs (inp ! p) then [(Suc p, c)] else [])"
| "threads inp (Star neg cs) (p, c) =
     map (\<lambda>q. (q, c)) (rev [p ..< Suc (p + length (takeWhile (in_cls neg cs) (drop p inp)))])"
| "threads inp (Opt r) t = threads inp r t @ [t]"
| "threads inp (Cat r1 r2) t = concat (map (threads inp r2) (threads inp r1 t))"
| "threads inp (Cap i r) (p, c) =
     map (\<lambda>(q, c'). (q, c'(i \<mapsto> (p, q)))) (threads inp r (p, c))"

fun NumSubexp :: "regex \<Rightarrow> nat" where
  "NumSubexp (Opt r) = NumSubexp r"
| "NumSubexp (Cat r1 r2) = max (NumSubexp r1) (NumSubexp r2)"
| "NumSubexp (Cap i r) = max i (NumSubexp r)"
| "NumSubexp _ = 0"

definition slice :: "string \<Rightarrow> nat \<Rightarrow> nat \<Rightarrow> string" where
  "slice s a b = take (b - a) (drop a s)"

text \<open>
  \<^verbatim>\<open>(*Regexp).FindStringSubmatch\<close>: the text of the leftmost match followed by the text of
  each group, the empty string for a group that took no part, and \<^verbatim>\<open>nil\<close> (the empty
  list) when nothing matches.
\<close>

definition FindStringSubmatch :: "regex \<Rightarrow> string \<Rightarrow> string list" where
  "FindStringSubmatch r s =
     (case concat (map (\<lambda>i. map (Pair i) (threads s r (i, Map.empty))) [0 ..< Suc (length s)]) of
        [] \<Rightarrow> []
      | (i, (q, c)) # _ \<Rightarrow>
          slice s i q #
          map (\<lambda>g. case c g of None \<Rightarrow> [] | Some (a, b) \<Rightarrow> slice s a b) [1 ..< Suc (NumSubexp r)])"

text \<open>\<^verbatim>\<open>regexp.MustCompile(`^(.*/)([^?].*)?[?|.]*$`)\<close>\<close>

definition re :: regex where
  "re = Cat Bol
         (Cat (Cap 1 (Cat (Star True [CHR 0x0A]) (Cls False ''/'')))
           (Cat (Opt (Cap 2 (Cat (Cls True ''?'') (Star True [CHR 0x0A]))))
             (Cat (Star False ''?|.'') Eol)))"


section \<open>Configuration\<close>

text \<open>
  \<^verbatim>\<open>Config\<close>, field by field. \<^verbatim>\<open>template.JS\<close> is a string type. \<^verbatim>\<open>Handler\<close> is a pointer
  to a \<^verbatim>\<open>webdav.Handler\<close>: an address into the store of such handlers, or \<open>None\<close> for
  \<^verbatim>\<open>nil\<close>.
\<close>

type_synonym addr = nat

record Config =
  URL :: string
  DocExpansion :: string
  DomID :: string
  InstanceName :: string
  BeforeScript :: string
  AfterScript :: string
  Plugins :: "string list"
  UIConfig :: "string \<rightharpoonup> string"
  DeepLinking :: bool
  PersistAuthorization :: bool
  Handler :: "addr option"

text \<open>
  The option constructors. Each returns a \<^verbatim>\<open>func(*Config)\<close> that assigns one field; the
  model's option is the function from the configuration to the updated one. The names carry
  the suffix \<open>_option\<close> because the fields already have the plain names.
\<close>

definition WebdavHandler :: "addr option \<Rightarrow> Config \<Rightarrow> Config" where
  "WebdavHandler handler c = c\<lparr>Handler := handler\<rparr>"

definition URL_option :: "string \<Rightarrow> Config \<Rightarrow> Config" where
  "URL_option url c = c\<lparr>URL := url\<rparr>"

definition DeepLinking_option :: "bool \<Rightarrow> Config \<Rightarrow> Config" where
  "DeepLinking_option deepLinking c = c\<lparr>DeepLinking := deepLinking\<rparr>"

definition DocExpansion_option :: "string \<Rightarrow> Config \<Rightarrow> Config" where
  "DocExpansion_option docExpansion c = c\<lparr>DocExpansion := docExpansion\<rparr>"

definition DomID_option :: "string \<Rightarrow> Config \<Rightarrow> Config" where
  "DomID_option domID c = c\<lparr>DomID := domID\<rparr>"

definition InstanceName_option :: "string \<Rightarrow> Config \<Rightarrow> Config" where
  "InstanceName_option name c = c\<lparr>InstanceName := name\<rparr>"

definition PersistAuthorization_option :: "bool \<Rightarrow> Config \<Rightarrow> Config" where
  "PersistAuthorization_option persistAuthorization c =
     c\<lparr>PersistAuthorization := persistAuthorization\<rparr>"

definition Plugins_option :: "string list \<Rightarrow> Config \<Rightarrow> Config" where
  "Plugins_option plugins c = c\<lparr>Plugins := plugins\<rparr>"

definition UIConfig_option :: "(string \<rightharpoonup> string) \<Rightarrow> Config \<Rightarrow> Config" where
  "UIConfig_option props c = c\<lparr>UIConfig := props\<rparr>"

definition BeforeScript_option :: "string \<Rightarrow> Config \<Rightarrow> Config" where
  "BeforeScript_option js c = c\<lparr>BeforeScript := js\<rparr>"

definition AfterScript_option :: "string \<Rightarrow> Config \<Rightarrow> Config" where
  "AfterScript_option js c = c\<lparr>AfterScript := js\<rparr>"

text \<open>\<^verbatim>\<open>swag.Name\<close>; the comment on \<^verbatim>\<open>InstanceName\<close> in the source gives its value.\<close>

definition swag_Name :: string where
  "swag_Name = ''swagger''"

definition newConfig :: "(Config \<Rightarrow> Config) list \<Rightarrow> Config" where
  "newConfig configFns =
     (let config = fold (\<lambda>fn c. fn c) configFns
            \<lparr>URL = ''doc.json'', DocExpansion = ''list'', DomID = ''swagger-ui'',
             InstanceName = ''swagger'', BeforeScript = [], AfterScript = [], Plugins = [],
             UIConfig = Map.empty, DeepLinking = True, PersistAuthorization = False,
             Handler = None\<rparr>
      in if InstanceName config = [] then config\<lparr>InstanceName := swag_Name\<rparr> else config)"

section \<open>Requests, the calls a request makes, and the dispatcher's state\<close>

text \<open>The two fields of \<^verbatim>\<open>http.Request\<close> the dispatcher reads.\<close>

record Request =
  Method :: string
  RequestURI :: string

text \<open>
  Of a \<^verbatim>\<open>webdav.Handler\<close> the dispatcher touches the \<^verbatim>\<open>Prefix\<close> field only; the file
  system, the lock system and the logger stay with the asset server.
\<close>

record webdav_Handler =
  Prefix :: string

text \<open>
  The entry-page template \<^verbatim>\<open>indexTempl\<close> refers to nine fields of the configuration it is
  executed with, \<^verbatim>\<open>.BeforeScript\<close>, \<^verbatim>\<open>.URL\<close>, \<^verbatim>\<open>.DeepLinking\<close>, \<^verbatim>\<open>.DocExpansion\<close>,
  \<^verbatim>\<open>.DomID\<close>, \<^verbatim>\<open>.PersistAuthorization\<close>, \<^verbatim>\<open>.Plugins\<close>, \<^verbatim>\<open>.UIConfig\<close> and
  \<^verbatim>\<open>.AfterScript\<close>, and to nothing else; these are the data of an execution.
\<close>

datatype index_data =
  Index_data string string bool string string bool "string list" "string \<rightharpoonup> string" string

definition index_fields :: "Config \<Rightarrow> index_data" where
  "index_fields c =
     Index_data (BeforeScript c) (URL c) (DeepLinking c) (DocExpansion c) (DomID c)
       (PersistAuthorization c) (Plugins c) (UIConfig c) (AfterScript c)"

text \<open>
  What handling a request does to the response writer is the sequence of calls it makes:
  \<^verbatim>\<open>w.Header().Set(k, v)\<close>, \<^verbatim>\<open>w.Write(b)\<close>, \<^verbatim>\<open>http.Error(w, msg, code)\<close>,
  \<^verbatim>\<open>http.Redirect(w, r, url, code)\<close>, \<^verbatim>\<open>index.Execute(w, config)\<close> with the fields the
  template reads, and \<^verbatim>\<open>config.Handler.ServeHTTP(w, r)\<close> with the asset server as it is
  at the call.
\<close>

datatype call =
    Header_Set string string
  | Write string
  | http_Error string nat
  | http_Redirect string nat
  | index_Execute index_data
  | Handler_ServeHTTP webdav_Handler

datatype panic = IndexOutOfRange | NilDereference

text \<open>
  The closure \<^verbatim>\<open>Handler\<close> returns owns \<^verbatim>\<open>config\<close> and \<^verbatim>\<open>once\<close>; \<open>handlers\<close> is the store
  the \<^verbatim>\<open>*webdav.Handler\<close> pointers point into. \<open>once\<close> is the \<^verbatim>\<open>done\<close> flag of the
  \<^verbatim>\<open>sync.Once\<close>.
\<close>

record dispatcher =
  config :: Config
  once :: bool
  handlers :: "addr \<Rightarrow> webdav_Handler"

text \<open>
  What the dispatcher takes from other packages: the address \<^verbatim>\<open>swaggerFiles.Handler\<close>
  holds, and \<^verbatim>\<open>swag.ReadDoc\<close>, the registry, which returns an error (\<open>Inl\<close>, with its
  message) or the document.
\<close>

record deps =
  swaggerFiles_Handler :: addr
  swag_ReadDoc :: "string \<Rightarrow> string + string"

definition MethodGet :: string where
  "MethodGet = ''GET''"

definition StatusOK :: nat where
  "StatusOK = 200"

definition StatusMovedPermanently :: nat where
  "StatusMovedPermanently = 301"

definition StatusMethodNotAllowed :: nat where
  "StatusMethodNotAllowed = 405"

definition StatusInternalServerError :: nat where
  "StatusInternalServerError = 500"

text \<open>
  \<^verbatim>\<open>http.StatusText\<close>, the entries for the codes named above; the empty string is what it
  returns for a code it does not know.
\<close>

definition StatusText :: "nat \<Rightarrow> string" where
  "StatusText code =
     (if code = 200 then ''OK''
      else if code = 301 then ''Moved Permanently''
      else if code = 405 then ''Method Not Allowed''
      else if code = 500 then ''Internal Server Error''
      else [])"

text \<open>
  \<^verbatim>\<open>filepath.Ext\<close> with the separator \<^verbatim>\<open>/\<close>: scanning from the end and stopping at a
  separator, the suffix from the first dot met.
\<close>

fun ext_scan :: "string \<Rightarrow> string \<Rightarrow> string" where
  "ext_scan [] acc = []"
| "ext_scan (c # cs) acc =
     (if c = CHR ''/'' then []
      else if c = CHR ''.'' then c # acc
      else ext_scan cs (c # acc))"

definition Ext :: "string \<Rightarrow> string" where
  "Ext path = ext_scan (rev path) []"

text \<open>Indexing a slice: out of range is a run-time panic in Go, \<open>None\<close> here.\<close>

definition at_index :: "'a list \<Rightarrow> nat \<Rightarrow> 'a option" where
  "at_index xs i = (if i < length xs then Some (xs ! i) else None)"

text \<open>\<^verbatim>\<open>once.Do(f)\<close>: \<open>f\<close> runs if the flag is clear, and the flag is set.\<close>

definition Once_Do :: "dispatcher \<Rightarrow> (dispatcher \<Rightarrow> dispatcher) \<Rightarrow> dispatcher" where
  "Once_Do s f = (if once s then s else (f s)\<lparr>once := True\<rparr>)"

section \<open>The dispatcher\<close>

text \<open>\<^verbatim>\<open>switch filepath.Ext(path)\<close>\<close>

definition content_type :: "string \<Rightarrow> call list" where
  "content_type ext =
     (if ext = ''.html'' then [Header_Set ''Content-Type'' ''text/html; charset=utf-8'']
      else if ext = ''.css'' then [Header_Set ''Content-Type'' ''text/css; charset=utf-8'']
      else if ext = ''.js'' then [Header_Set ''Content-Type'' ''application/javascript'']
      else if ext = ''.png'' then [Header_Set ''Content-Type'' ''image/png'']
      else if ext = ''.json'' then [Header_Set ''Content-Type'' ''application/json; charset=utf-8'']
      else [])"

text \<open>\<^verbatim>\<open>switch path\<close>, with \<open>h\<close> the address in \<^verbatim>\<open>config.Handler\<close>.\<close>

definition dispatch :: "deps \<Rightarrow> dispatcher \<Rightarrow> addr \<Rightarrow> string \<Rightarrow> call list" where
  "dispatch d s h path =
     (if path = ''index.html'' then [index_Execute (index_fields (config s))]
      else if path = ''doc.json'' then
        (case swag_ReadDoc d (InstanceName (config s)) of
           Inl err \<Rightarrow>
             [http_Error (StatusText StatusInternalServerError) StatusInternalServerError]
         | Inr doc \<Rightarrow> [Write doc])
      else if path = [] then
        [http_Redirect (Prefix (handlers s h) @ ''index.html'') StatusMovedPermanently]
      else [Handler_ServeHTTP (handlers s h)])"

text \<open>
  \<^verbatim>\<open>Handler(configFns...)\<close> builds the configuration and a fresh \<^verbatim>\<open>sync.Once\<close> and returns
  the closure; \<open>Handler_new\<close> is the state the closure starts with and \<open>Handler_serve\<close> is
  the closure's body, one call of it per request. The result is the calls made on the
  response writer, or the panic that ended the call, and the state left behind.

  \<^verbatim>\<open>matches[2]\<close> is bounds-checked; where it succeeds \<^verbatim>\<open>matches[1]\<close> is in range too.
\<close>

definition Handler_new :: "(Config \<Rightarrow> Config) list \<Rightarrow> (addr \<Rightarrow> webdav_Handler) \<Rightarrow> dispatcher" where
  "Handler_new configFns store = \<lparr>config = newConfig configFns, once = False, handlers = store\<rparr>"

text \<open>\<^verbatim>\<open>if config.Handler == nil { config.Handler = swaggerFiles.Handler }\<close>\<close>

definition default_Handler :: "deps \<Rightarrow> dispatcher \<Rightarrow> dispatcher" where
  "default_Handler d s =
     (if Handler (config s) = None
      then s\<lparr>config := (config s)\<lparr>Handler := Some (swaggerFiles_Handler d)\<rparr>\<rparr>
      else s)"

text \<open>\<^verbatim>\<open>config.Handler.Prefix = matches[1]\<close>, the body of the function given to \<^verbatim>\<open>once.Do\<close>\<close>

definition set_Prefix :: "addr \<Rightarrow> string \<Rightarrow> dispatcher \<Rightarrow> dispatcher" where
  "set_Prefix h p s = s\<lparr>handlers := (handlers s)(h := (handlers s h)\<lparr>Prefix := p\<rparr>)\<rparr>"

definition Handler_serve :: "deps \<Rightarrow> dispatcher \<Rightarrow> Request \<Rightarrow> (panic + call list) \<times> dispatcher" where
  "Handler_serve d s r =
     (if Method r \<noteq> MethodGet then
        (Inr [http_Error ''Method not allowed'' StatusMethodNotAllowed], s)
      else
        let matches = FindStringSubmatch re (RequestURI r) in
        case at_index matches 2 of
          None \<Rightarrow> (Inl IndexOutOfRange, s)
        | Some path \<Rightarrow>
            let s1 = default_Handler d s
            in case Handler (config s1) of
                 None \<Rightarrow> (Inl NilDereference, s1)
               | Some h \<Rightarrow>
                   let s2 = Once_Do s1 (set_Prefix h (matches ! 1))
                   in (Inr (content_type (Ext path) @ dispatch d s2 h path), s2))"

text \<open>
  A dispatcher serving requests one after the other. A request that panics leaves the
  state as \<open>Handler_serve\<close> returns it; the HTTP server recovers the panic and goes on
  serving.
\<close>

fun serve_all :: "deps \<Rightarrow> dispatcher \<Rightarrow> Request list \<Rightarrow> dispatcher" where
  "serve_all d s [] = s"
| "serve_all d s (r # rs) = serve_all d (snd (Handler_serve d s r)) rs"

section \<open>The response writer\<close>

text \<open>
  \<^verbatim>\<open>http.ResponseWriter\<close> as \<^verbatim>\<open>net/http\<close> documents it: a header map, the status code once
  the header is written, and the body. \<^verbatim>\<open>Write\<close> writes the header with status 200 if
  none is written yet; \<^verbatim>\<open>WriteHeader\<close> after the header is written changes nothing.
  \<^verbatim>\<open>http.Error\<close> sets \<^verbatim>\<open>Content-Type\<close> to \<^verbatim>\<open>text/plain; charset=utf-8\<close> and
  \<^verbatim>\<open>X-Content-Type-Options\<close> to \<^verbatim>\<open>nosniff\<close>, writes the header with the code and prints
  the message and a line feed.
\<close>

record ResponseWriter =
  header :: "string \<rightharpoonup> string"
  status :: "nat option"
  body :: string

definition new_writer :: ResponseWriter where
  "new_writer = \<lparr>header = Map.empty, status = None, body = []\<rparr>"

definition WriteHeader :: "ResponseWriter \<Rightarrow> nat \<Rightarrow> ResponseWriter" where
  "WriteHeader w code = (if status w = None then w\<lparr>status := Some code\<rparr> else w)"

definition Write_bytes :: "ResponseWriter \<Rightarrow> string \<Rightarrow> ResponseWriter" where
  "Write_bytes w b = (let w' = WriteHeader w StatusOK in w'\<lparr>body := body w' @ b\<rparr>)"

definition Error :: "ResponseWriter \<Rightarrow> string \<Rightarrow> nat \<Rightarrow> ResponseWriter" where
  "Error w msg code =
     (let w1 = w\<lparr>header := (header w)(''Content-Type'' \<mapsto> ''text/plain; charset=utf-8'')\<rparr>;
          w2 = w1\<lparr>header := (header w1)(''X-Content-Type-Options'' \<mapsto> ''nosniff'')\<rparr>;
          w3 = WriteHeader w2 code
      in Write_bytes w3 (msg @ [CHR 0x0A]))"

text \<open>
  The calls whose effect on the writer belongs to a collaborator are parameters:
  \<^verbatim>\<open>http.Redirect\<close>, the template engine and the asset server.
\<close>

record collaborators =
  Redirect :: "ResponseWriter \<Rightarrow> Request \<Rightarrow> string \<Rightarrow> nat \<Rightarrow> ResponseWriter"
  Execute :: "ResponseWriter \<Rightarrow> index_data \<Rightarrow> ResponseWriter"
  ServeHTTP :: "webdav_Handler \<Rightarrow> ResponseWriter \<Rightarrow> Request \<Rightarrow> ResponseWriter"

fun perform :: "collaborators \<Rightarrow> Request \<Rightarrow> ResponseWriter \<Rightarrow> call \<Rightarrow> ResponseWriter" where
  "perform k r w (Header_Set key v) = w\<lparr>header := (header w)(key \<mapsto> v)\<rparr>"
| "perform k r w (Write b) = Write_bytes w b"
| "perform k r w (http_Error msg code) = Error w msg code"
| "perform k r w (http_Redirect url code) = Redirect k w r url code"
| "perform k r w (index_Execute data) = Execute k w data"
| "perform k r w (Handler_ServeHTTP h) = ServeHTTP k h w r"

text \<open>
  The response to one request, served on a fresh writer: \<open>None\<close> if the call panicked.
\<close>

definition response ::
  "collaborators \<Rightarrow> deps \<Rightarrow> dispatcher \<Rightarrow> Request \<Rightarrow> ResponseWriter option" where
  "response k d s r =
     (case fst (Handler_serve d s r) of
        Inl p \<Rightarrow> None
      | Inr calls \<Rightarrow> Some (foldl (perform k r) new_writer calls))"


section \<open>Concrete instances\<close>

text \<open>
  A registry with no document, a registry holding one document under the default name, a
  store whose asset servers have an empty prefix, requests by method and URI, and simple
  collaborators: a redirect that records its target in \<^verbatim>\<open>Location\<close>, a template engine that
  writes the document URL, an asset server that writes its prefix.
\<close>

definition no_documents :: deps where
  "no_documents =
     \<lparr>swaggerFiles_Handler = 0,
      swag_ReadDoc = (\<lambda>name. Inl (''no swag has yet been registered as '' @ name))\<rparr>"

definition one_document :: deps where
  "one_document =
     \<lparr>swaggerFiles_Handler = 0,
      swag_ReadDoc = (\<lambda>name. if name = ''swagger'' then Inr ''{}''
                              else Inl (''no swag has yet been registered as '' @ name))\<rparr>"

definition empty_store :: "addr \<Rightarrow> webdav_Handler" where
  "empty_store = (\<lambda>a. \<lparr>Prefix = []\<rparr>)"

definition GET :: "string \<Rightarrow> Request" where
  "GET uri = \<lparr>Method = ''GET'', RequestURI = uri\<rparr>"

definition POST :: "string \<Rightarrow> Request" where
  "POST uri = \<lparr>Method = ''POST'', RequestURI = uri\<rparr>"

definition simple :: collaborators where
  "simple =
     \<lparr>Redirect = (\<lambda>w r url code. WriteHeader (w\<lparr>header := (header w)(''Location'' \<mapsto> url)\<rparr>) code),
      Execute = (\<lambda>w data. case data of Index_data js1 url dl de di pa ps ui js2 \<Rightarrow> Write_bytes w url),
      ServeHTTP = (\<lambda>h w r. Write_bytes w (Prefix h))\<rparr>"

section \<open>How one request is served\<close>

lemma Handler_serve_other_method:
  "Method r \<noteq> MethodGet \<Longrightarrow>
   Handler_serve d s r = (Inr [http_Error ''Method not allowed'' StatusMethodNotAllowed], s)"
  by (simp add: Handler_serve_def)

lemma default_Handler_Some:
  "\<exists>h. Handler (config (default_Handler d s)) = Some h"
  by (cases "Handler (config s)") (simp_all add: default_Handler_def)

lemma default_Handler_kept:
  "Handler (config s) = Some h \<Longrightarrow> default_Handler d s = s"
  by (simp add: default_Handler_def)

lemma default_Handler_fields:
  "once (default_Handler d s) = once s"
  "handlers (default_Handler d s) = handlers s"
  "config (default_Handler d s) = (config s)\<lparr>Handler := Handler (config (default_Handler d s))\<rparr>"
  by (simp_all add: default_Handler_def)

lemma Once_Do_fields:
  "once (Once_Do s (set_Prefix h p))"
  "config (Once_Do s (set_Prefix h p)) = config s"
  "once s \<Longrightarrow> Once_Do s f = s"
  "\<not> once s \<Longrightarrow>
     handlers (Once_Do s (set_Prefix h p)) = (handlers s)(h := (handlers s h)\<lparr>Prefix := p\<rparr>)"
  by (simp_all add: Once_Do_def set_Prefix_def)

lemma Handler_serve_get:
  assumes "Method r = MethodGet"
    and "at_index (FindStringSubmatch re (RequestURI r)) 2 = Some path"
    and "Handler (config (default_Handler d s)) = Some h"
  shows "Handler_serve d s r =
           (Inr (content_type (Ext path) @
                 dispatch d (Once_Do (default_Handler d s)
                               (set_Prefix h (FindStringSubmatch re (RequestURI r) ! 1))) h path),
            Once_Do (default_Handler d s)
              (set_Prefix h (FindStringSubmatch re (RequestURI r) ! 1)))"
  using assms by (simp add: Handler_serve_def Let_def)

lemma Handler_serve_cases:
  "Handler_serve d s r = (Inr [http_Error ''Method not allowed'' StatusMethodNotAllowed], s) \<or>
   Handler_serve d s r = (Inl IndexOutOfRange, s) \<or>
   (\<exists>h path. Method r = MethodGet \<and>
       at_index (FindStringSubmatch re (RequestURI r)) 2 = Some path \<and>
       Handler (config (default_Handler d s)) = Some h \<and>
       Handler_serve d s r =
           (Inr (content_type (Ext path) @
                 dispatch d (Once_Do (default_Handler d s)
                               (set_Prefix h (FindStringSubmatch re (RequestURI r) ! 1))) h path),
            Once_Do (default_Handler d s)
              (set_Prefix h (FindStringSubmatch re (RequestURI r) ! 1))))"
proof (cases "Method r = MethodGet")
  case False
  then show ?thesis by (simp add: Handler_serve_other_method)
next
  case get: True
  show ?thesis
  proof (cases "at_index (FindStringSubmatch re (RequestURI r)) 2")
    case None
    with get show ?thesis by (simp add: Handler_serve_def)
  next
    case (Some path)
    obtain h where h: "Handler (config (default_Handler d s)) = Some h"
      using default_Handler_Some by blast
    from Handler_serve_get [OF get Some h] get Some h show ?thesis by blast
  qed
qed

lemma Handler_serve_idem:
  "Handler_serve d (snd (Handler_serve d s r)) r = Handler_serve d s r"
proof -
  consider
    (refused) "Handler_serve d s r =
                 (Inr [http_Error ''Method not allowed'' StatusMethodNotAllowed], s)"
  | (panicked) "Handler_serve d s r = (Inl IndexOutOfRange, s)"
  | (served) h path where "Method r = MethodGet"
       "at_index (FindStringSubmatch re (RequestURI r)) 2 = Some path"
       "Handler (config (default_Handler d s)) = Some h"
       "Handler_serve d s r =
           (Inr (content_type (Ext path) @
                 dispatch d (Once_Do (default_Handler d s)
                               (set_Prefix h (FindStringSubmatch re (RequestURI r) ! 1))) h path),
            Once_Do (default_Handler d s)
              (set_Prefix h (FindStringSubmatch re (RequestURI r) ! 1)))"
    using Handler_serve_cases [of d s r] by blast
  then show ?thesis
  proof cases
    case refused
    then show ?thesis by simp
  next
    case panicked
    then show ?thesis by simp
  next
    case served
    let ?p = "FindStringSubmatch re (RequestURI r) ! 1"
    let ?s2 = "Once_Do (default_Handler d s) (set_Prefix h ?p)"
    have h2: "Handler (config ?s2) = Some h"
      using served(3) by (simp add: Once_Do_fields)
    have d2: "default_Handler d ?s2 = ?s2"
      using h2 by (rule default_Handler_kept)
    have o2: "Once_Do ?s2 (set_Prefix h ?p) = ?s2"
      by (simp add: Once_Do_fields)
    have "Handler_serve d ?s2 r = (Inr (content_type (Ext path) @ dispatch d ?s2 h path), ?s2)"
      using Handler_serve_get [OF served(1) served(2), of d ?s2 h] h2 d2 o2 by simp
    with served(4) show ?thesis by simp
  qed
qed

lemma serve_all_append:
  "serve_all d s (xs @ ys) = serve_all d (serve_all d s xs) ys"
  by (induction xs arbitrary: s) simp_all

text \<open>
  Once the latch has run and the asset server is set, no request changes the dispatcher.
\<close>

lemma settled:
  assumes "once s" and "Handler (config s) = Some h"
  shows "snd (Handler_serve d s r) = s"
proof -
  have dh: "default_Handler d s = s"
    using assms(2) by (rule default_Handler_kept)
  from Handler_serve_cases [of d s r] show ?thesis
    using assms dh by (auto simp: Once_Do_fields)
qed

lemma settled_all:
  assumes "once s" and "Handler (config s) = Some h"
  shows "serve_all d s rs = s"
  using assms by (induction rs) (simp_all add: settled)

lemma config_after:
  "config (snd (Handler_serve d s r)) = config s \<or>
   config (snd (Handler_serve d s r)) = config (default_Handler d s)"
  using Handler_serve_cases [of d s r] by (auto simp: Once_Do_fields)

subsection \<open>The pattern on some URIs\<close>

lemmas match_simps =
  FindStringSubmatch_def re_def slice_def in_cls_def at_index_def

lemma match_index_html:
  "FindStringSubmatch re ''/api/docs/index.html'' =
     [''/api/docs/index.html'', ''/api/docs/'', ''index.html'']"
  by (simp add: match_simps)

lemma match_doc_json:
  "FindStringSubmatch re ''/api/docs/doc.json'' =
     [''/api/docs/doc.json'', ''/api/docs/'', ''doc.json'']"
  by (simp add: match_simps)

lemma match_bare_prefix:
  "FindStringSubmatch re ''/api/docs/'' = [''/api/docs/'', ''/api/docs/'', []]"
  by (simp add: match_simps)

lemma match_other_prefix:
  "FindStringSubmatch re ''/other/'' = [''/other/'', ''/other/'', []]"
  by (simp add: match_simps)

lemma match_css:
  "FindStringSubmatch re ''/api/docs/foo.css'' =
     [''/api/docs/foo.css'', ''/api/docs/'', ''foo.css'']"
  by (simp add: match_simps)

lemma match_root_query:
  "FindStringSubmatch re ''/?x'' = []"
  by (simp add: match_simps)

section \<open>Methods other than GET\<close>

text \<open>
  C8. A request whose method is not GET is answered by
  \<^verbatim>\<open>http.Error(w, "Method not allowed", http.StatusMethodNotAllowed)\<close> and by nothing else:
  that call is the only one made, whatever the URI, the registry and the configuration
  are, and the state of the dispatcher is left as it was. On a fresh writer the response
  has status 405, content type \<^verbatim>\<open>text/plain; charset=utf-8\<close> and the message as its body,
  followed by the line feed \<^verbatim>\<open>http.Error\<close> ends it with.
\<close>

theorem other_method_not_allowed:
  assumes "Method r \<noteq> MethodGet"
  shows "Handler_serve d s r =
           (Inr [http_Error ''Method not allowed'' StatusMethodNotAllowed], s) \<and>
         (\<exists>w. response k d s r = Some w \<and> status w = Some 405 \<and>
              header w ''Content-Type'' = Some ''text/plain; charset=utf-8'' \<and>
              body w = ''Method not allowed'' @ [CHR 0x0A])"
  using assms
  by (simp add: Handler_serve_other_method response_def new_writer_def Error_def
      WriteHeader_def Write_bytes_def StatusMethodNotAllowed_def StatusOK_def Let_def)

theorem other_method_not_allowed_witness:
  "Method (POST ''/?x'') \<noteq> MethodGet \<and>
   Handler_serve no_documents (Handler_new [] empty_store) (POST ''/?x'') =
     (Inr [http_Error ''Method not allowed'' 405], Handler_new [] empty_store) \<and>
   (\<exists>w. response simple no_documents (Handler_new [] empty_store) (POST ''/?x'') = Some w \<and>
        status w = Some 405 \<and>
        header w ''Content-Type'' = Some ''text/plain; charset=utf-8'' \<and>
        body w = ''Method not allowed'' @ [CHR 0x0A])"
  using other_method_not_allowed
    [of "POST ''/?x''" no_documents "Handler_new [] empty_store" simple]
  by (simp add: POST_def MethodGet_def StatusMethodNotAllowed_def)

text \<open>
  C10. A request whose method is not GET leaves the \<^verbatim>\<open>sync.Once\<close>, the store of asset
  servers and the configuration as they were; so does any run of such requests, and the
  requests served after the run find the dispatcher as if the run had not happened: the
  prefix is latched by a GET request.
\<close>

theorem other_method_keeps_latch:
  assumes "Method r \<noteq> MethodGet"
    and "\<forall>r' \<in> set rs. Method r' \<noteq> MethodGet"
  shows "once (snd (Handler_serve d s r)) = once s \<and>
         handlers (snd (Handler_serve d s r)) = handlers s \<and>
         config (snd (Handler_serve d s r)) = config s \<and>
         serve_all d s (rs @ rest) = serve_all d s rest"
proof -
  have "serve_all d s (rs @ rest) = serve_all d s rest"
    using assms(2) by (induction rs) (simp_all add: Handler_serve_other_method)
  then show ?thesis
    using assms(1) by (simp add: Handler_serve_other_method)
qed

theorem other_method_keeps_latch_witness:
  "Method (POST ''/a/x'') \<noteq> MethodGet \<and>
   Method (POST ''/?x'') \<noteq> MethodGet \<and>
   once (snd (Handler_serve no_documents (Handler_new [] empty_store) (POST ''/a/x''))) =
     once (Handler_new [] empty_store) \<and>
   handlers (snd (Handler_serve no_documents (Handler_new [] empty_store) (POST ''/a/x''))) =
     handlers (Handler_new [] empty_store) \<and>
   config (snd (Handler_serve no_documents (Handler_new [] empty_store) (POST ''/a/x''))) =
     config (Handler_new [] empty_store) \<and>
   serve_all no_documents (Handler_new [] empty_store)
     ([POST ''/a/x'', POST ''/?x''] @ [GET ''/api/docs/index.html'']) =
   serve_all no_documents (Handler_new [] empty_store) [GET ''/api/docs/index.html'']"
  using other_method_keeps_latch
    [of "POST ''/a/x''" "[POST ''/a/x'', POST ''/?x'']" no_documents "Handler_new [] empty_store"
        "[GET ''/api/docs/index.html'']"]
  by (simp add: POST_def MethodGet_def)

section \<open>The pattern's failures\<close>

text \<open>
  C3, at a URI the pattern does not match. \<^verbatim>\<open>FindStringSubmatch\<close> returns \<^verbatim>\<open>nil\<close>,
  \<^verbatim>\<open>matches[2]\<close> is out of range, and the call ends in a panic: no call is made on the
  response writer.
\<close>

theorem get_unmatched_uri_panics:
  "FindStringSubmatch re ''/?x'' = [] \<and>
   Handler_serve d s (GET ''/?x'') = (Inl IndexOutOfRange, s) \<and>
   response k d s (GET ''/?x'') = None"
  by (simp add: match_root_query Handler_serve_def response_def GET_def MethodGet_def
      at_index_def)

text \<open>
  C2, at a URI with a query string. The second group takes the rest of the URI, query
  string included, the final \<^verbatim>\<open>[?|.]*\<close> is left with nothing, and the request goes to
  the asset server instead of the entry page.
\<close>

theorem query_string_kept_in_path:
  "FindStringSubmatch re ''/api/docs/index.html?x=1'' =
     [''/api/docs/index.html?x=1'', ''/api/docs/'', ''index.html?x=1''] \<and>
   fst (Handler_serve d (Handler_new [] empty_store) (GET ''/api/docs/index.html?x=1'')) =
     Inr [Handler_ServeHTTP \<lparr>Prefix = ''/api/docs/''\<rparr>]"
  by (simp add: match_simps Handler_serve_def GET_def MethodGet_def Handler_new_def
      newConfig_def default_Handler_def Once_Do_def set_Prefix_def empty_store_def Ext_def
      content_type_def dispatch_def Let_def)


section \<open>The configuration across a request\<close>

text \<open>
  C4, as stated, fails on a configuration built without \<^verbatim>\<open>WebdavHandler\<close>: its asset-server
  reference is \<^verbatim>\<open>nil\<close> before the first GET request and \<^verbatim>\<open>swaggerFiles.Handler\<close> after it.
\<close>

theorem config_handler_defaulted:
  "Handler (config (Handler_new [] empty_store)) = None \<and>
   Handler (config (snd (Handler_serve no_documents (Handler_new [] empty_store)
                          (GET ''/api/docs/index.html'')))) = Some 0"
  by (simp add: match_index_html Handler_serve_def GET_def MethodGet_def Handler_new_def
      newConfig_def default_Handler_def Once_Do_def set_Prefix_def at_index_def
      no_documents_def Let_def)

text \<open>
  C4, amended. A request leaves every field of the configuration but the asset-server
  reference as it was. The reference stays as it was if it was set; if it was \<^verbatim>\<open>nil\<close> it
  stays \<^verbatim>\<open>nil\<close> or becomes \<^verbatim>\<open>swaggerFiles.Handler\<close>. A request whose method is not GET
  leaves the whole configuration as it was.
\<close>

theorem config_fields_kept:
  "URL (config (snd (Handler_serve d s r))) = URL (config s) \<and>
   DocExpansion (config (snd (Handler_serve d s r))) = DocExpansion (config s) \<and>
   DomID (config (snd (Handler_serve d s r))) = DomID (config s) \<and>
   InstanceName (config (snd (Handler_serve d s r))) = InstanceName (config s) \<and>
   BeforeScript (config (snd (Handler_serve d s r))) = BeforeScript (config s) \<and>
   AfterScript (config (snd (Handler_serve d s r))) = AfterScript (config s) \<and>
   Plugins (config (snd (Handler_serve d s r))) = Plugins (config s) \<and>
   UIConfig (config (snd (Handler_serve d s r))) = UIConfig (config s) \<and>
   DeepLinking (config (snd (Handler_serve d s r))) = DeepLinking (config s) \<and>
   PersistAuthorization (config (snd (Handler_serve d s r))) = PersistAuthorization (config s) \<and>
   (Handler (config s) \<noteq> None \<longrightarrow>
      Handler (config (snd (Handler_serve d s r))) = Handler (config s)) \<and>
   (Handler (config s) = None \<longrightarrow>
      Handler (config (snd (Handler_serve d s r))) = None \<or>
      Handler (config (snd (Handler_serve d s r))) = Some (swaggerFiles_Handler d)) \<and>
   (Method r \<noteq> MethodGet \<longrightarrow> config (snd (Handler_serve d s r)) = config s)"
proof -
  have "config (default_Handler d s) =
          (if Handler (config s) = None
           then (config s)\<lparr>Handler := Some (swaggerFiles_Handler d)\<rparr> else config s)"
    by (simp add: default_Handler_def)
  with config_after [of d s r] show ?thesis
    by (auto simp: Handler_serve_other_method split: if_splits)
qed

theorem config_fields_kept_witness:
  "Handler (config (Handler_new [WebdavHandler (Some 7)] empty_store)) \<noteq> None \<and>
   Handler (config (snd (Handler_serve no_documents (Handler_new [WebdavHandler (Some 7)] empty_store)
                          (GET ''/api/docs/index.html'')))) = Some 7 \<and>
   Handler (config (Handler_new [] empty_store)) = None \<and>
   Handler (config (snd (Handler_serve no_documents (Handler_new [] empty_store)
                          (GET ''/api/docs/index.html'')))) = Some (swaggerFiles_Handler no_documents) \<and>
   URL (config (snd (Handler_serve no_documents (Handler_new [] empty_store)
                          (GET ''/api/docs/index.html'')))) = ''doc.json'' \<and>
   Method (POST ''/api/docs/index.html'') \<noteq> MethodGet \<and>
   config (snd (Handler_serve no_documents (Handler_new [] empty_store)
                 (POST ''/api/docs/index.html''))) = config (Handler_new [] empty_store)"
  using config_fields_kept
      [of no_documents "Handler_new [WebdavHandler (Some 7)] empty_store"
          "GET ''/api/docs/index.html''"]
    config_fields_kept
      [of no_documents "Handler_new [] empty_store" "GET ''/api/docs/index.html''"]
    config_fields_kept
      [of no_documents "Handler_new [] empty_store" "POST ''/api/docs/index.html''"]
  by (simp add: match_index_html Handler_serve_def GET_def POST_def MethodGet_def
      Handler_new_def newConfig_def WebdavHandler_def default_Handler_def Once_Do_def
      set_Prefix_def at_index_def no_documents_def Let_def)

section \<open>The document branch\<close>

lemma response_get:
  assumes "Method r = MethodGet"
    and "at_index (FindStringSubmatch re (RequestURI r)) 2 = Some path"
    and "Handler (config (default_Handler d s)) = Some h"
  shows "response k d s r =
           Some (foldl (perform k r) new_writer
                  (content_type (Ext path) @
                   dispatch d (Once_Do (default_Handler d s)
                                 (set_Prefix h (FindStringSubmatch re (RequestURI r) ! 1))) h path))"
  using Handler_serve_get [OF assms] by (simp add: response_def)

lemma Ext_doc_json: "Ext ''doc.json'' = ''.json''"
  by (simp add: Ext_def)

lemma Ext_index_html: "Ext ''index.html'' = ''.html''"
  by (simp add: Ext_def)

lemma Ext_empty: "Ext [] = []"
  by (simp add: Ext_def)

lemma dispatch_doc_json:
  "dispatch d (Once_Do (default_Handler d s) (set_Prefix h p)) h ''doc.json'' =
     (case swag_ReadDoc d (InstanceName (config s)) of
        Inl err \<Rightarrow> [http_Error ''Internal Server Error'' 500]
      | Inr doc \<Rightarrow> [Write doc])"
proof -
  have "InstanceName (config (default_Handler d s)) = InstanceName (config s)"
    by (simp add: default_Handler_def)
  then show ?thesis
    by (simp add: dispatch_def Once_Do_fields StatusText_def StatusInternalServerError_def
        split: sum.splits)
qed

text \<open>
  C5. A GET request whose relative path is \<^verbatim>\<open>doc.json\<close> asks the registry for the document
  of the configured instance name. If the registry returns a document, the dispatcher
  writes it and nothing else: the body is the document and the status is 200. If the
  registry returns an error, the only call after the content type is
  \<^verbatim>\<open>http.Error\<close> with the status text of 500: no document is written, the status is 500
  and the body is \<^verbatim>\<open>Internal Server Error\<close> and a line feed, whatever the error was, so it
  is the error's text only if that text is this very line.
\<close>

theorem doc_json_response:
  assumes "Method r = MethodGet"
    and "at_index (FindStringSubmatch re (RequestURI r)) 2 = Some ''doc.json''"
  shows "(\<forall>doc. swag_ReadDoc d (InstanceName (config s)) = Inr doc \<longrightarrow>
            fst (Handler_serve d s r) =
              Inr [Header_Set ''Content-Type'' ''application/json; charset=utf-8'', Write doc] \<and>
            (\<exists>w. response k d s r = Some w \<and> status w = Some 200 \<and> body w = doc)) \<and>
         (\<forall>e. swag_ReadDoc d (InstanceName (config s)) = Inl e \<longrightarrow>
            fst (Handler_serve d s r) =
              Inr [Header_Set ''Content-Type'' ''application/json; charset=utf-8'',
                   http_Error ''Internal Server Error'' 500] \<and>
            (\<exists>w. response k d s r = Some w \<and> status w = Some 500 \<and>
                 body w = ''Internal Server Error'' @ [CHR 0x0A] \<and> body w \<noteq> [] \<and>
                 (e \<noteq> ''Internal Server Error'' @ [CHR 0x0A] \<longrightarrow> body w \<noteq> e)))"
proof -
  obtain h where h: "Handler (config (default_Handler d s)) = Some h"
    using default_Handler_Some by blast
  let ?p = "FindStringSubmatch re (RequestURI r) ! 1"
  have calls: "fst (Handler_serve d s r) =
      Inr (Header_Set ''Content-Type'' ''application/json; charset=utf-8'' #
           (case swag_ReadDoc d (InstanceName (config s)) of
              Inl err \<Rightarrow> [http_Error ''Internal Server Error'' 500]
            | Inr doc \<Rightarrow> [Write doc]))"
    using Handler_serve_get [OF assms h]
    by (simp add: Ext_doc_json content_type_def dispatch_doc_json)
  show ?thesis
  proof (intro conjI allI impI)
    fix doc assume ok: "swag_ReadDoc d (InstanceName (config s)) = Inr doc"
    show "fst (Handler_serve d s r) =
              Inr [Header_Set ''Content-Type'' ''application/json; charset=utf-8'', Write doc]"
      using calls ok by simp
    then show "\<exists>w. response k d s r = Some w \<and> status w = Some 200 \<and> body w = doc"
      by (simp add: response_def new_writer_def Write_bytes_def WriteHeader_def StatusOK_def
          Let_def)
  next
    fix e assume bad: "swag_ReadDoc d (InstanceName (config s)) = Inl e"
    show c: "fst (Handler_serve d s r) =
              Inr [Header_Set ''Content-Type'' ''application/json; charset=utf-8'',
                   http_Error ''Internal Server Error'' 500]"
      using calls bad by simp
    show "\<exists>w. response k d s r = Some w \<and> status w = Some 500 \<and>
                 body w = ''Internal Server Error'' @ [CHR 0x0A] \<and> body w \<noteq> [] \<and>
                 (e \<noteq> ''Internal Server Error'' @ [CHR 0x0A] \<longrightarrow> body w \<noteq> e)"
      using c
      by (simp add: response_def new_writer_def Error_def Write_bytes_def WriteHeader_def
          StatusOK_def Let_def)
  qed
qed

theorem doc_json_response_witness:
  "Method (GET ''/api/docs/doc.json'') = MethodGet \<and>
   at_index (FindStringSubmatch re (RequestURI (GET ''/api/docs/doc.json''))) 2 = Some ''doc.json'' \<and>
   swag_ReadDoc one_document (InstanceName (config (Handler_new [] empty_store))) = Inr ''{}'' \<and>
   (\<exists>w. response simple one_document (Handler_new [] empty_store) (GET ''/api/docs/doc.json'') = Some w \<and>
        status w = Some 200 \<and> body w = ''{}'') \<and>
   swag_ReadDoc no_documents (InstanceName (config (Handler_new [] empty_store))) =
     Inl ''no swag has yet been registered as swagger'' \<and>
   (\<exists>w. response simple no_documents (Handler_new [] empty_store) (GET ''/api/docs/doc.json'') = Some w \<and>
        status w = Some 500 \<and> body w = ''Internal Server Error'' @ [CHR 0x0A] \<and>
        body w \<noteq> ''no swag has yet been registered as swagger'')"
proof -
  have g: "Method (GET ''/api/docs/doc.json'') = MethodGet"
    by (simp add: GET_def MethodGet_def)
  have m: "at_index (FindStringSubmatch re (RequestURI (GET ''/api/docs/doc.json''))) 2 =
             Some ''doc.json''"
    by (simp add: GET_def match_doc_json at_index_def)
  have ok: "swag_ReadDoc one_document (InstanceName (config (Handler_new [] empty_store))) =
              Inr ''{}''"
    by (simp add: one_document_def Handler_new_def newConfig_def)
  have bad: "swag_ReadDoc no_documents (InstanceName (config (Handler_new [] empty_store))) =
               Inl ''no swag has yet been registered as swagger''"
    by (simp add: no_documents_def Handler_new_def newConfig_def)
  from doc_json_response [OF g m, of one_document "Handler_new [] empty_store" simple] ok
  have 1: "\<exists>w. response simple one_document (Handler_new [] empty_store)
                 (GET ''/api/docs/doc.json'') = Some w \<and> status w = Some 200 \<and> body w = ''{}''"
    by blast
  from doc_json_response [OF g m, of no_documents "Handler_new [] empty_store" simple] bad
  have 2: "\<exists>w. response simple no_documents (Handler_new [] empty_store)
                 (GET ''/api/docs/doc.json'') = Some w \<and> status w = Some 500 \<and>
               body w = ''Internal Server Error'' @ [CHR 0x0A] \<and>
               body w \<noteq> ''no swag has yet been registered as swagger''"
    by fastforce
  from g m ok bad 1 2 show ?thesis by blast
qed

section \<open>The same request again\<close>

lemma served_settled:
  assumes "Method r = MethodGet"
    and "at_index (FindStringSubmatch re (RequestURI r)) 2 = Some path"
  shows "once (snd (Handler_serve d s r)) \<and>
         Handler (config (snd (Handler_serve d s r))) = Handler (config (default_Handler d s))"
proof -
  obtain h where h: "Handler (config (default_Handler d s)) = Some h"
    using default_Handler_Some by blast
  show ?thesis
    using Handler_serve_get [OF assms h] h by (simp add: Once_Do_fields)
qed

text \<open>
  C9. A GET request for \<^verbatim>\<open>index.html\<close> or \<^verbatim>\<open>doc.json\<close> gets a response, and the same
  request served again by the dispatcher, with the same registry and collaborators, at
  once or after any other requests, gets the same response: the same body, status and
  headers. The template engine and the registry are functions of what they are given.
\<close>

theorem same_request_same_body:
  assumes "Method r = MethodGet"
    and "at_index (FindStringSubmatch re (RequestURI r)) 2 = Some path"
    and "path = ''index.html'' \<or> path = ''doc.json''"
  shows "\<exists>w. response k d s r = Some w \<and>
             response k d (snd (Handler_serve d s r)) r = Some w \<and>
             (\<forall>between. response k d (serve_all d (snd (Handler_serve d s r)) between) r = Some w)"
proof -
  let ?s1 = "snd (Handler_serve d s r)"
  obtain h where h: "Handler (config (default_Handler d s)) = Some h"
    using default_Handler_Some by blast
  from response_get [OF assms(1,2) h] obtain w where w: "response k d s r = Some w"
    by blast
  have again: "response k d ?s1 r = response k d s r"
    by (simp add: response_def Handler_serve_idem)
  have "once ?s1" and "Handler (config ?s1) = Some h"
    using served_settled [OF assms(1,2), of d s] h by simp_all
  then have "serve_all d ?s1 between = ?s1" for between
    by (rule settled_all)
  with w again show ?thesis by simp
qed

theorem same_request_same_body_witness:
  "Method (GET ''/api/docs/index.html'') = MethodGet \<and>
   at_index (FindStringSubmatch re (RequestURI (GET ''/api/docs/index.html''))) 2 =
     Some ''index.html'' \<and>
   (\<exists>w. response simple one_document (Handler_new [] empty_store)
          (GET ''/api/docs/index.html'') = Some w \<and>
        response simple one_document
          (snd (Handler_serve one_document (Handler_new [] empty_store)
                 (GET ''/api/docs/index.html'')))
          (GET ''/api/docs/index.html'') = Some w \<and>
        body w = ''doc.json'')"
proof -
  have g: "Method (GET ''/api/docs/index.html'') = MethodGet"
    by (simp add: GET_def MethodGet_def)
  have m: "at_index (FindStringSubmatch re (RequestURI (GET ''/api/docs/index.html''))) 2 =
             Some ''index.html''"
    by (simp add: GET_def match_index_html at_index_def)
  have b: "response simple one_document (Handler_new [] empty_store)
             (GET ''/api/docs/index.html'') = Some w \<Longrightarrow> body w = ''doc.json''" for w
    using g m
    by (auto simp: response_def Handler_serve_def Let_def default_Handler_def Handler_new_def
        newConfig_def Once_Do_def set_Prefix_def Ext_index_html content_type_def dispatch_def
        index_fields_def simple_def new_writer_def Write_bytes_def WriteHeader_def StatusOK_def)
  from same_request_same_body [OF g m, of simple one_document "Handler_new [] empty_store"]
  show ?thesis using g m b by blast
qed

section \<open>The redirect\<close>

lemma match_nested_asset:
  "FindStringSubmatch re ''/swagger/css/style.css'' =
     [''/swagger/css/style.css'', ''/swagger/css/'', ''style.css'']"
  by (simp add: match_simps)

lemma match_swagger_prefix:
  "FindStringSubmatch re ''/swagger/'' = [''/swagger/'', ''/swagger/'', []]"
  by (simp add: match_simps)

lemmas serve_simps =
  Handler_serve_def GET_def MethodGet_def Handler_new_def newConfig_def default_Handler_def
  Once_Do_def set_Prefix_def at_index_def Let_def content_type_def dispatch_def Ext_def
  empty_store_def StatusMovedPermanently_def

text \<open>
  C7, as stated, fails once the latch has run on a request with another prefix. After
  \<^verbatim>\<open>GET /swagger/css/style.css\<close> the asset server's prefix is \<^verbatim>\<open>/swagger/css/\<close>, and
  \<^verbatim>\<open>GET /swagger/\<close>, whose own prefix is \<^verbatim>\<open>/swagger/\<close>, is redirected to
  \<^verbatim>\<open>/swagger/css/index.html\<close>.
\<close>

theorem redirect_after_other_prefix:
  "FindStringSubmatch re ''/swagger/'' ! 1 = ''/swagger/'' \<and>
   at_index (FindStringSubmatch re ''/swagger/'') 2 = Some [] \<and>
   fst (Handler_serve no_documents
         (serve_all no_documents (Handler_new [] empty_store) [GET ''/swagger/css/style.css''])
         (GET ''/swagger/'')) =
     Inr [http_Redirect ''/swagger/css/index.html'' 301] \<and>
   fst (Handler_serve no_documents
         (serve_all no_documents (Handler_new [] empty_store) [GET ''/swagger/css/style.css''])
         (GET ''/swagger/'')) \<noteq>
     Inr [http_Redirect (FindStringSubmatch re ''/swagger/'' ! 1 @ ''index.html'') 301]"
  by (simp add: match_nested_asset match_swagger_prefix serve_simps no_documents_def)

text \<open>
  C7, amended. A GET request whose relative path is empty makes one call,
  \<^verbatim>\<open>http.Redirect\<close> with status 301 and the target \<^verbatim>\<open>config.Handler.Prefix + "index.html"\<close>:
  the prefix the asset server holds, which is the request's own prefix if the latch runs on
  this request and the prefix latched earlier otherwise. The asset server is the
  configured one or \<^verbatim>\<open>swaggerFiles.Handler\<close>. No other field of the configuration has a
  part in it: a configuration with the same asset-server reference gives the same call.
\<close>

theorem empty_path_redirect:
  assumes "Method r = MethodGet"
    and "at_index (FindStringSubmatch re (RequestURI r)) 2 = Some []"
  shows "\<exists>h. Handler (config (default_Handler d s)) = Some h \<and>
           fst (Handler_serve d s r) =
             Inr [http_Redirect
                    ((if once s then Prefix (handlers s h)
                      else FindStringSubmatch re (RequestURI r) ! 1) @ ''index.html'') 301] \<and>
           (\<forall>c. Handler c = Handler (config s) \<longrightarrow>
                fst (Handler_serve d (s\<lparr>config := c\<rparr>) r) = fst (Handler_serve d s r))"
proof -
  obtain h where h: "Handler (config (default_Handler d s)) = Some h"
    using default_Handler_Some by blast
  have calls: "fst (Handler_serve d s' r) =
             Inr [http_Redirect
                    ((if once s' then Prefix (handlers s' h')
                      else FindStringSubmatch re (RequestURI r) ! 1) @ ''index.html'') 301]"
    if "Handler (config (default_Handler d s')) = Some h'" for s' h'
    using Handler_serve_get [OF assms that]
    by (simp add: Ext_empty content_type_def dispatch_def Once_Do_def set_Prefix_def
        default_Handler_fields StatusMovedPermanently_def)
  have "fst (Handler_serve d (s\<lparr>config := c\<rparr>) r) = fst (Handler_serve d s r)"
    if c: "Handler c = Handler (config s)" for c
  proof -
    have "Handler (config (default_Handler d (s\<lparr>config := c\<rparr>))) = Some h"
      using h c by (simp add: default_Handler_def split: if_splits)
    from calls [OF this] calls [OF h] show ?thesis by simp
  qed
  with h calls [OF h] show ?thesis by blast
qed

theorem empty_path_redirect_witness:
  "Method (GET ''/swagger/'') = MethodGet \<and>
   at_index (FindStringSubmatch re (RequestURI (GET ''/swagger/''))) 2 = Some [] \<and>
   \<not> once (Handler_new [DocExpansion_option ''full''] empty_store) \<and>
   fst (Handler_serve no_documents (Handler_new [DocExpansion_option ''full''] empty_store)
         (GET ''/swagger/'')) =
     Inr [http_Redirect ''/swagger/index.html'' 301] \<and>
   Handler (newConfig []) = Handler (config (Handler_new [DocExpansion_option ''full''] empty_store)) \<and>
   fst (Handler_serve no_documents
         ((Handler_new [DocExpansion_option ''full''] empty_store)\<lparr>config := newConfig []\<rparr>)
         (GET ''/swagger/'')) =
     Inr [http_Redirect ''/swagger/index.html'' 301]"
proof -
  have g: "Method (GET ''/swagger/'') = MethodGet"
    by (simp add: GET_def MethodGet_def)
  have m: "at_index (FindStringSubmatch re (RequestURI (GET ''/swagger/''))) 2 = Some []"
    by (simp add: GET_def match_swagger_prefix at_index_def)
  have p: "FindStringSubmatch re (RequestURI (GET ''/swagger/'')) ! 1 = ''/swagger/''"
    by (simp add: GET_def match_swagger_prefix)
  have o: "\<not> once (Handler_new [DocExpansion_option ''full''] empty_store)"
    by (simp add: Handler_new_def)
  have c: "Handler (newConfig []) =
             Handler (config (Handler_new [DocExpansion_option ''full''] empty_store))"
    by (simp add: Handler_new_def newConfig_def DocExpansion_option_def)
  from empty_path_redirect
    [OF g m, of no_documents "Handler_new [DocExpansion_option ''full''] empty_store"]
  show ?thesis using g m p o c by auto
qed

section \<open>The content type\<close>

text \<open>
  C6, as stated, fails on the response to a failed document fetch. The extension of
  \<^verbatim>\<open>doc.json\<close> sets \<^verbatim>\<open>application/json; charset=utf-8\<close>, and \<^verbatim>\<open>http.Error\<close> then sets
  \<^verbatim>\<open>text/plain; charset=utf-8\<close> before it writes the header: the response goes out as plain
  text.
\<close>

theorem fetch_failure_content_type:
  "Ext ''doc.json'' = ''.json'' \<and>
   content_type ''.json'' = [Header_Set ''Content-Type'' ''application/json; charset=utf-8''] \<and>
   (\<exists>w. response simple no_documents (Handler_new [] empty_store)
          (GET ''/api/docs/doc.json'') = Some w \<and>
        status w = Some 500 \<and>
        header w ''Content-Type'' = Some ''text/plain; charset=utf-8'' \<and>
        header w ''Content-Type'' \<noteq> Some ''application/json; charset=utf-8'')"
  by (simp add: match_doc_json response_def Handler_serve_def GET_def MethodGet_def
      Handler_new_def newConfig_def default_Handler_def Once_Do_def set_Prefix_def
      at_index_def Let_def content_type_def dispatch_def Ext_def no_documents_def
      StatusText_def StatusInternalServerError_def new_writer_def Error_def Write_bytes_def
      WriteHeader_def StatusOK_def)

lemma dispatch_one_call:
  "\<exists>c. dispatch d s h path = [c] \<and> (\<forall>key v. c \<noteq> Header_Set key v)"
  by (simp add: dispatch_def split: sum.splits)

text \<open>
  C6, amended. Serving a GET request whose URI the pattern matches, the dispatcher first
  sets \<^verbatim>\<open>Content-Type\<close> from the extension of the relative path by the table of five
  entries, and sets nothing for any other extension or none; then it makes the one call of
  the branch the relative path selects, which is never a header assignment of its own.
  With the relative path \<^verbatim>\<open>doc.json\<close>, the response to a successful fetch carries the
  table's \<^verbatim>\<open>application/json; charset=utf-8\<close>, and the response to a failed fetch carries
  \<^verbatim>\<open>text/plain; charset=utf-8\<close>, set by \<^verbatim>\<open>http.Error\<close>. In the redirect branch the relative
  path is empty and the table sets nothing.
\<close>

theorem content_type_from_extension:
  assumes "Method r = MethodGet"
    and "at_index (FindStringSubmatch re (RequestURI r)) 2 = Some path"
  shows "(\<exists>c. fst (Handler_serve d s r) = Inr (content_type (Ext path) @ [c]) \<and>
              (\<forall>key v. c \<noteq> Header_Set key v)) \<and>
         content_type ''.html'' = [Header_Set ''Content-Type'' ''text/html; charset=utf-8''] \<and>
         content_type ''.css'' = [Header_Set ''Content-Type'' ''text/css; charset=utf-8''] \<and>
         content_type ''.js'' = [Header_Set ''Content-Type'' ''application/javascript''] \<and>
         content_type ''.png'' = [Header_Set ''Content-Type'' ''image/png''] \<and>
         content_type ''.json'' =
           [Header_Set ''Content-Type'' ''application/json; charset=utf-8''] \<and>
         (Ext path \<notin> {''.html'', ''.css'', ''.js'', ''.png'', ''.json''} \<longrightarrow>
            content_type (Ext path) = []) \<and>
         (path = [] \<longrightarrow> content_type (Ext path) = []) \<and>
         (path = ''doc.json'' \<longrightarrow>
            (\<exists>w. response k d s r = Some w \<and>
                 header w ''Content-Type'' =
                   Some (case swag_ReadDoc d (InstanceName (config s)) of
                           Inr doc \<Rightarrow> ''application/json; charset=utf-8''
                         | Inl e \<Rightarrow> ''text/plain; charset=utf-8'')))"
proof -
  obtain h where h: "Handler (config (default_Handler d s)) = Some h"
    using default_Handler_Some by blast
  let ?s2 = "Once_Do (default_Handler d s)
               (set_Prefix h (FindStringSubmatch re (RequestURI r) ! 1))"
  obtain c where c: "dispatch d ?s2 h path = [c]" "\<forall>key v. c \<noteq> Header_Set key v"
    using dispatch_one_call by blast
  have 1: "\<exists>c. fst (Handler_serve d s r) = Inr (content_type (Ext path) @ [c]) \<and>
              (\<forall>key v. c \<noteq> Header_Set key v)"
    using Handler_serve_get [OF assms h] c by simp
  have 2: "\<exists>w. response k d s r = Some w \<and>
                 header w ''Content-Type'' =
                   Some (case swag_ReadDoc d (InstanceName (config s)) of
                           Inr doc \<Rightarrow> ''application/json; charset=utf-8''
                         | Inl e \<Rightarrow> ''text/plain; charset=utf-8'')"
    if "path = ''doc.json''"
    using response_get [OF assms h, of k] that
    by (simp add: Ext_doc_json content_type_def dispatch_doc_json new_writer_def Error_def
        Write_bytes_def WriteHeader_def StatusOK_def Let_def split: sum.splits)
  have 3: "content_type ''.html'' = [Header_Set ''Content-Type'' ''text/html; charset=utf-8'']"
    "content_type ''.css'' = [Header_Set ''Content-Type'' ''text/css; charset=utf-8'']"
    "content_type ''.js'' = [Header_Set ''Content-Type'' ''application/javascript'']"
    "content_type ''.png'' = [Header_Set ''Content-Type'' ''image/png'']"
    "content_type ''.json'' = [Header_Set ''Content-Type'' ''application/json; charset=utf-8'']"
    by (simp_all add: content_type_def)
  have 4: "Ext path \<notin> {''.html'', ''.css'', ''.js'', ''.png'', ''.json''} \<longrightarrow>
            content_type (Ext path) = []"
    by (simp add: content_type_def)
  have 5: "path = [] \<longrightarrow> content_type (Ext path) = []"
    by (simp add: Ext_empty content_type_def)
  from 1 2 3 4 5 show ?thesis by blast
qed

theorem content_type_from_extension_witness:
  "Method (GET ''/api/docs/doc.json'') = MethodGet \<and>
   at_index (FindStringSubmatch re (RequestURI (GET ''/api/docs/doc.json''))) 2 =
     Some ''doc.json'' \<and>
   (\<exists>w. response simple one_document (Handler_new [] empty_store)
          (GET ''/api/docs/doc.json'') = Some w \<and>
        header w ''Content-Type'' = Some ''application/json; charset=utf-8'') \<and>
   (\<exists>w. response simple no_documents (Handler_new [] empty_store)
          (GET ''/api/docs/doc.json'') = Some w \<and>
        header w ''Content-Type'' = Some ''text/plain; charset=utf-8'') \<and>
   Method (GET ''/api/docs/'') = MethodGet \<and>
   at_index (FindStringSubmatch re (RequestURI (GET ''/api/docs/''))) 2 = Some [] \<and>
   content_type (Ext []) = [] \<and>
   Method (GET ''/api/docs/swagger-ui-bundle.map'') = MethodGet \<and>
   at_index (FindStringSubmatch re (RequestURI (GET ''/api/docs/swagger-ui-bundle.map''))) 2 =
     Some ''swagger-ui-bundle.map'' \<and>
   Ext ''swagger-ui-bundle.map'' \<notin> {''.html'', ''.css'', ''.js'', ''.png'', ''.json''} \<and>
   content_type (Ext ''swagger-ui-bundle.map'') = []"
proof -
  have g: "Method (GET uri) = MethodGet" for uri
    by (simp add: GET_def MethodGet_def)
  have m1: "at_index (FindStringSubmatch re (RequestURI (GET ''/api/docs/doc.json''))) 2 =
              Some ''doc.json''"
    by (simp add: GET_def match_doc_json at_index_def)
  have m2: "at_index (FindStringSubmatch re (RequestURI (GET ''/api/docs/''))) 2 = Some []"
    by (simp add: GET_def match_bare_prefix at_index_def)
  have m3: "at_index (FindStringSubmatch re (RequestURI (GET ''/api/docs/swagger-ui-bundle.map''))) 2 =
              Some ''swagger-ui-bundle.map''"
    by (simp add: GET_def match_simps)
  have e3: "Ext ''swagger-ui-bundle.map'' \<notin> {''.html'', ''.css'', ''.js'', ''.png'', ''.json''}"
    by (simp add: Ext_def)
  have r1: "swag_ReadDoc one_document (InstanceName (config (Handler_new [] empty_store))) =
              Inr ''{}''"
    by (simp add: one_document_def Handler_new_def newConfig_def)
  have r2: "swag_ReadDoc no_documents (InstanceName (config (Handler_new [] empty_store))) =
               Inl ''no swag has yet been registered as swagger''"
    by (simp add: no_documents_def Handler_new_def newConfig_def)
  from content_type_from_extension
    [OF g m1, of one_document "Handler_new [] empty_store" simple] r1
  have 1: "\<exists>w. response simple one_document (Handler_new [] empty_store)
                 (GET ''/api/docs/doc.json'') = Some w \<and>
               header w ''Content-Type'' = Some ''application/json; charset=utf-8''"
    by simp
  from content_type_from_extension
    [OF g m1, of no_documents "Handler_new [] empty_store" simple] r2
  have 2: "\<exists>w. response simple no_documents (Handler_new [] empty_store)
                 (GET ''/api/docs/doc.json'') = Some w \<and>
               header w ''Content-Type'' = Some ''text/plain; charset=utf-8''"
    by simp
  from content_type_from_extension
    [OF g m2, of no_documents "Handler_new [] empty_store" simple]
  have 3: "content_type (Ext []) = []"
    by blast
  from content_type_from_extension
    [OF g m3, of no_documents "Handler_new [] empty_store" simple] e3
  have 4: "content_type (Ext ''swagger-ui-bundle.map'') = []"
    by blast
  from g m1 m2 m3 e3 1 2 3 4 show ?thesis by blast
qed

section \<open>The latch\<close>

lemma dispatch_with_Prefix:
  assumes "Prefix (handlers s h) = p"
  shows "dispatch d s h path =
           (if path = ''index.html'' \<or> path = ''doc.json'' then dispatch d s h path
            else if path = [] then [http_Redirect (p @ ''index.html'') 301]
            else [Handler_ServeHTTP \<lparr>Prefix = p\<rparr>])"
proof -
  have "handlers s h = \<lparr>Prefix = p\<rparr>"
    using assms by (cases "handlers s h") simp
  with assms show ?thesis
    by (simp add: dispatch_def StatusMovedPermanently_def)
qed

text \<open>
  C1. Take a dispatcher serving a sequence of requests, and in it a GET request whose URI
  the pattern matches and before which the \<^verbatim>\<open>sync.Once\<close> has not run: the first request
  whose latch runs. After it the \<^verbatim>\<open>sync.Once\<close> is done and the prefix of the asset server
  is the first group of that request's match. Whatever requests follow, the state of the
  dispatcher stays the one this request left: the store of asset servers, so the prefix
  too, is never written again. Every later GET request the pattern matches is served
  from that state: a redirect goes to that prefix followed by \<^verbatim>\<open>index.html\<close>, and the
  asset server is called holding that prefix.
\<close>

theorem prefix_latched_once:
  assumes "\<not> once (serve_all d s0 before)"
    and "Method r = MethodGet"
    and "at_index (FindStringSubmatch re (RequestURI r)) 2 = Some path"
  shows "\<exists>h. once (serve_all d s0 (before @ [r])) \<and>
           Handler (config (serve_all d s0 (before @ [r]))) = Some h \<and>
           Prefix (handlers (serve_all d s0 (before @ [r])) h) =
             FindStringSubmatch re (RequestURI r) ! 1 \<and>
           (\<forall>later. serve_all d s0 (before @ r # later) = serve_all d s0 (before @ [r])) \<and>
           (\<forall>later r' path'.
              Method r' = MethodGet \<and>
              at_index (FindStringSubmatch re (RequestURI r')) 2 = Some path' \<longrightarrow>
              fst (Handler_serve d (serve_all d s0 (before @ r # later)) r') =
                Inr (content_type (Ext path') @
                     (if path' = ''index.html'' \<or> path' = ''doc.json''
                      then dispatch d (serve_all d s0 (before @ [r])) h path'
                      else if path' = []
                      then [http_Redirect
                              (FindStringSubmatch re (RequestURI r) ! 1 @ ''index.html'') 301]
                      else [Handler_ServeHTTP
                              \<lparr>Prefix = FindStringSubmatch re (RequestURI r) ! 1\<rparr>])))"
proof -
  let ?s = "serve_all d s0 before"
  let ?p = "FindStringSubmatch re (RequestURI r) ! 1"
  define s1 where "s1 = serve_all d s0 (before @ [r])"
  obtain h where h: "Handler (config (default_Handler d ?s)) = Some h"
    using default_Handler_Some by blast
  have s1: "s1 = Once_Do (default_Handler d ?s) (set_Prefix h ?p)"
    using Handler_serve_get [OF assms(2,3) h] by (simp add: s1_def serve_all_append)
  have o: "once s1"
    by (simp add: s1 Once_Do_fields)
  have c: "Handler (config s1) = Some h"
    using h by (simp add: s1 Once_Do_fields)
  have p: "Prefix (handlers s1 h) = ?p"
    using assms(1) by (simp add: s1 Once_Do_fields default_Handler_fields)
  have frozen: "serve_all d s0 (before @ r # later) = s1" for later
  proof -
    have "serve_all d s0 (before @ r # later) = serve_all d s1 later"
      by (simp add: s1_def serve_all_append)
    also have "\<dots> = s1"
      using o c by (rule settled_all)
    finally show ?thesis .
  qed
  have calls: "fst (Handler_serve d (serve_all d s0 (before @ r # later)) r') =
                Inr (content_type (Ext path') @
                     (if path' = ''index.html'' \<or> path' = ''doc.json''
                      then dispatch d s1 h path'
                      else if path' = []
                      then [http_Redirect (?p @ ''index.html'') 301]
                      else [Handler_ServeHTTP \<lparr>Prefix = ?p\<rparr>]))"
    if g: "Method r' = MethodGet"
      and m: "at_index (FindStringSubmatch re (RequestURI r')) 2 = Some path'"
    for later r' path'
  proof -
    have d1: "default_Handler d s1 = s1"
      using c by (rule default_Handler_kept)
    have "Handler (config (default_Handler d s1)) = Some h"
      using c d1 by simp
    from Handler_serve_get [OF g m this]
    have "fst (Handler_serve d s1 r') = Inr (content_type (Ext path') @ dispatch d s1 h path')"
      using d1 o by (simp add: Once_Do_fields)
    also have "dispatch d s1 h path' =
                     (if path' = ''index.html'' \<or> path' = ''doc.json''
                      then dispatch d s1 h path'
                      else if path' = []
                      then [http_Redirect (?p @ ''index.html'') 301]
                      else [Handler_ServeHTTP \<lparr>Prefix = ?p\<rparr>])"
      using p by (rule dispatch_with_Prefix)
    finally show ?thesis
      by (simp only: frozen)
  qed
  from o c p frozen [of "[]"] frozen calls show ?thesis
    unfolding s1_def by blast
qed


theorem prefix_latched_once_witness:
  "\<not> once (serve_all no_documents (Handler_new [] empty_store) [POST ''/a/x'', GET ''/?x'']) \<and>
   Method (GET ''/api/docs/index.html'') = MethodGet \<and>
   at_index (FindStringSubmatch re (RequestURI (GET ''/api/docs/index.html''))) 2 =
     Some ''index.html'' \<and>
   (\<exists>h. once (serve_all no_documents (Handler_new [] empty_store)
               ([POST ''/a/x'', GET ''/?x''] @ [GET ''/api/docs/index.html''])) \<and>
        Prefix (handlers (serve_all no_documents (Handler_new [] empty_store)
               ([POST ''/a/x'', GET ''/?x''] @ [GET ''/api/docs/index.html''])) h) = ''/api/docs/'' \<and>
        (\<forall>later. serve_all no_documents (Handler_new [] empty_store)
                   ([POST ''/a/x'', GET ''/?x''] @ GET ''/api/docs/index.html'' # later) =
                 serve_all no_documents (Handler_new [] empty_store)
                   ([POST ''/a/x'', GET ''/?x''] @ [GET ''/api/docs/index.html''])) \<and>
        fst (Handler_serve no_documents
              (serve_all no_documents (Handler_new [] empty_store)
                 ([POST ''/a/x'', GET ''/?x''] @ GET ''/api/docs/index.html'' # [GET ''/api/docs/foo.css'']))
              (GET ''/other/'')) =
          Inr [http_Redirect ''/api/docs/index.html'' 301])"
proof -
  have n: "\<not> once (serve_all no_documents (Handler_new [] empty_store)
                    [POST ''/a/x'', GET ''/?x''])"
    by (simp add: Handler_serve_def POST_def GET_def MethodGet_def match_root_query
        at_index_def Handler_new_def)
  have g: "Method (GET uri) = MethodGet" for uri
    by (simp add: GET_def MethodGet_def)
  have m: "at_index (FindStringSubmatch re (RequestURI (GET ''/api/docs/index.html''))) 2 =
             Some ''index.html''"
    by (simp add: GET_def match_index_html at_index_def)
  have p: "FindStringSubmatch re (RequestURI (GET ''/api/docs/index.html'')) ! 1 = ''/api/docs/''"
    by (simp add: GET_def match_index_html)
  have m': "at_index (FindStringSubmatch re (RequestURI (GET ''/other/''))) 2 = Some []"
    by (simp add: GET_def match_other_prefix at_index_def)
  from prefix_latched_once [OF n g m] obtain h where
    h: "once (serve_all no_documents (Handler_new [] empty_store)
               ([POST ''/a/x'', GET ''/?x''] @ [GET ''/api/docs/index.html'']))"
       "Prefix (handlers (serve_all no_documents (Handler_new [] empty_store)
               ([POST ''/a/x'', GET ''/?x''] @ [GET ''/api/docs/index.html''])) h) =
          FindStringSubmatch re (RequestURI (GET ''/api/docs/index.html'')) ! 1"
       "\<forall>later. serve_all no_documents (Handler_new [] empty_store)
                   ([POST ''/a/x'', GET ''/?x''] @ GET ''/api/docs/index.html'' # later) =
                 serve_all no_documents (Handler_new [] empty_store)
                   ([POST ''/a/x'', GET ''/?x''] @ [GET ''/api/docs/index.html''])"
       "\<forall>later r' path'.
              Method r' = MethodGet \<and>
              at_index (FindStringSubmatch re (RequestURI r')) 2 = Some path' \<longrightarrow>
              fst (Handler_serve no_documents (serve_all no_documents (Handler_new [] empty_store)
                   ([POST ''/a/x'', GET ''/?x''] @ GET ''/api/docs/index.html'' # later)) r') =
                Inr (content_type (Ext path') @
                     (if path' = ''index.html'' \<or> path' = ''doc.json''
                      then dispatch no_documents (serve_all no_documents (Handler_new [] empty_store)
                             ([POST ''/a/x'', GET ''/?x''] @ [GET ''/api/docs/index.html''])) h path'
                      else if path' = []
                      then [http_Redirect
                              (FindStringSubmatch re (RequestURI (GET ''/api/docs/index.html'')) ! 1 @
                               ''index.html'') 301]
                      else [Handler_ServeHTTP
                              \<lparr>Prefix = FindStringSubmatch re
                                          (RequestURI (GET ''/api/docs/index.html'')) ! 1\<rparr>]))"
    by blast
  have "fst (Handler_serve no_documents
              (serve_all no_documents (Handler_new [] empty_store)
                 ([POST ''/a/x'', GET ''/?x''] @ GET ''/api/docs/index.html'' # [GET ''/api/docs/foo.css'']))
              (GET ''/other/'')) =
          Inr (content_type (Ext []) @
               (if [] = ''index.html'' \<or> [] = ''doc.json''
                then dispatch no_documents (serve_all no_documents (Handler_new [] empty_store)
                       ([POST ''/a/x'', GET ''/?x''] @ [GET ''/api/docs/index.html''])) h []
                else if [] = ([]::string)
                then [http_Redirect
                        (FindStringSubmatch re (RequestURI (GET ''/api/docs/index.html'')) ! 1 @
                         ''index.html'') 301]
                else [Handler_ServeHTTP
                        \<lparr>Prefix = FindStringSubmatch re
                                    (RequestURI (GET ''/api/docs/index.html'')) ! 1\<rparr>]))"
    using h(4) [rule_format, of "GET ''/other/''" "[]" "[GET ''/api/docs/foo.css'']"]
      g [of "''/other/''"] m'
    by blast
  then have q: "fst (Handler_serve no_documents
              (serve_all no_documents (Handler_new [] empty_store)
                 ([POST ''/a/x'', GET ''/?x''] @ GET ''/api/docs/index.html'' # [GET ''/api/docs/foo.css'']))
              (GET ''/other/'')) = Inr [http_Redirect ''/api/docs/index.html'' 301]"
    by (simp only: p Ext_empty content_type_def) simp
  have "once (serve_all no_documents (Handler_new [] empty_store)
               ([POST ''/a/x'', GET ''/?x''] @ [GET ''/api/docs/index.html''])) \<and>
        Prefix (handlers (serve_all no_documents (Handler_new [] empty_store)
               ([POST ''/a/x'', GET ''/?x''] @ [GET ''/api/docs/index.html''])) h) = ''/api/docs/'' \<and>
        (\<forall>later. serve_all no_documents (Handler_new [] empty_store)
                   ([POST ''/a/x'', GET ''/?x''] @ GET ''/api/docs/index.html'' # later) =
                 serve_all no_documents (Handler_new [] empty_store)
                   ([POST ''/a/x'', GET ''/?x''] @ [GET ''/api/docs/index.html''])) \<and>
        fst (Handler_serve no_documents
              (serve_all no_documents (Handler_new [] empty_store)
                 ([POST ''/a/x'', GET ''/?x''] @ GET ''/api/docs/index.html'' # [GET ''/api/docs/foo.css'']))
              (GET ''/other/'')) =
          Inr [http_Redirect ''/api/docs/index.html'' 301]"
    using h(1) h(2) h(3) q unfolding p by (intro conjI)
  then show ?thesis
    using n g [of "''/api/docs/index.html''"] m by (intro conjI exI [of _ h]) blast+
qed

end
